theory Spec2Isabelle
  imports Main
begin

section \<open>Data model\<close>

text \<open>
  The program is one Python class, \<open>DatabaseViewer\<close>, a window over one SQLite
  connection, and three undo commands. Its methods are modelled as functions on a record
  of the fields they read and write. A Python \<open>str\<close> is a \<open>string\<close>: one
  \<open>char\<close> stands for one code point, so the model covers texts of code points
  below 256.
\<close>

datatype py_error = AttributeError | IndexError

text \<open>
  A value: in storage, SQL NULL, an integer or a text; in Python, \<open>None\<close>, an
  \<open>int\<close> or a \<open>str\<close>. Reals and blobs are left out.
\<close>

datatype val = Null | IntV int | TextV string

text \<open>
  Modelled from the spec: the storage engine is an external collaborator (section 6: a
  local relational database with table introspection, INSERT ... SELECT and DDL). A
  database lists its tables and views by name. An entry has
  \<^item> its ordered (column name, declared type) pairs, as \<open>PRAGMA table_info\<close> lists
    them, and its rows in the order of storage, in which a table without an index is
    read;
  \<^item> its kind, table or view;
  \<^item> the names of the indexes on it, those that a UNIQUE or PRIMARY KEY constraint
    makes included;
  \<^item> for every trigger on it, the names of the tables that the trigger's body reads or
    writes, and for a view the names of the tables that it reads;
  \<^item> the number of SELECT statements of the connection that read it and have not come
    to their end;
  \<^item> for an indexed table, the order in which the engine's planner hands out the rows
    when the listed columns are asked for: it may follow an index, and the model leaves
    the choice open.
  Other constraints, defaults, generated columns, type affinity, the bodies of triggers,
  temporary and attached databases and the enforcement of foreign keys (off unless
  switched on) are not modelled.
\<close>

datatype object_kind = Table | View

record table =
  cols :: "(string \<times> string) list"
  rows :: "val list list"
  kind :: object_kind
  indexes :: "string list"
  triggers :: "string list list"
  refers :: "string list"
  reads :: nat
  read_order :: "string list \<Rightarrow> val list list \<Rightarrow> val list list"

type_synonym database = "(string \<times> table) list"

text \<open>The statements the program sends, by the f-string that builds each:
  \<^item> \<open>CreateTable t cs\<close>: \<open>CREATE TABLE {t} ({name type, ...})\<close>
  \<^item> \<open>InsertSelect t cl s\<close>: \<open>INSERT INTO {t} ({cl}) SELECT {cl} FROM {s}\<close>
  \<^item> \<open>DropTable t\<close>: \<open>DROP TABLE {t}\<close>
  \<^item> \<open>RenameTable t u\<close>: \<open>ALTER TABLE {t} RENAME TO {u}\<close>
  \<^item> \<open>AddColumn t c ty\<close>: \<open>ALTER TABLE {t} ADD COLUMN {c} {ty}\<close>
  The source splices the names into the text unquoted. A statement here carries them
  whole, which is what the engine reads back only when every name is a plain identifier
  (\<open>plain_identifier\<close> below) and every declared type is empty or one; for other
  names the text is another statement or none, and the model does not say what the
  engine does.\<close>

datatype stmt =
    CreateTable string "(string \<times> string) list"
  | InsertSelect string "string list" string
  | DropTable string
  | RenameTable string string
  | AddColumn string string string

text \<open>What the engine answers to a free SQL text of the query box: an error text, or
  the database after the statement with the result set's column names and rows.\<close>

datatype query_result = QFailed string | QDone database "string list" "val list list"

text \<open>The table model shown in the grid (\<open>QSqlTableModel\<close>): header names, the
  loaded rows, and whether its \<open>dataChanged\<close> signal is connected to
  \<open>on_data_changed\<close>.\<close>

record tmodel =
  headers :: "string list"
  cells :: "val list list"
  slot_connected :: bool

datatype role = DisplayRole | UserRole

text \<open>Three of the four undo command classes of the source, with the attributes their
  constructors store; \<open>AddRowCommand\<close> and \<open>add_row\<close> are left out. The model
  and the database that a command holds are taken to be the viewer's.\<close>

datatype command =
    UpdateCommand nat nat val val
  | AddColumnCommand string string
  | DeleteColumnCommand string string

text \<open>The fields of \<open>DatabaseViewer\<close>. \<open>commands\<close> and \<open>index\<close>
  are the undo stack; \<open>messages\<close> collects the (title, text) of every message box
  shown; \<open>table_combo\<close> is the combo box's current text.\<close>

record viewer =
  db :: "database option"
  model :: "tmodel option"
  table_combo :: string
  commands :: "command list"
  index :: nat
  status_bar :: string
  messages :: "(string \<times> string) list"
  query_input :: string
  query_history :: "string list"

record datetime =
  year :: nat
  month :: nat
  day :: nat
  hour :: nat
  minute :: nat
  second :: nat

section \<open>Python strings\<close>

definition digit_char :: "nat \<Rightarrow> char" where
  "digit_char d = ''0123456789'' ! (d mod 10)"

fun str_nat :: "nat \<Rightarrow> string" where
  "str_nat n = (if n < 10 then [digit_char n] else str_nat (n div 10) @ [digit_char n])"

declare str_nat.simps [simp del]

definition str_int :: "int \<Rightarrow> string" where
  "str_int i = (if i < 0 then CHR ''-'' # str_nat (nat (- i)) else str_nat (nat i))"

text \<open>\<open>%02d\<close> and \<open>%04d\<close>: zero padding to a width.\<close>

definition zero_pad :: "nat \<Rightarrow> nat \<Rightarrow> string" where
  "zero_pad w n = replicate (w - length (str_nat n)) CHR ''0'' @ str_nat n"

text \<open>\<open>strftime('%Y-%m-%d %H:%M:%S')\<close>\<close>

definition strftime :: "datetime \<Rightarrow> string" where
  "strftime t =
     zero_pad 4 (year t) @ ''-'' @ zero_pad 2 (month t) @ ''-'' @ zero_pad 2 (day t) @ '' '' @
     zero_pad 2 (hour t) @ '':'' @ zero_pad 2 (minute t) @ '':'' @ zero_pad 2 (second t)"

text \<open>\<open>str.isspace\<close> on the code points below 256.\<close>

definition is_space :: "char \<Rightarrow> bool" where
  "is_space c =
     (let n = (of_char c :: nat)
      in (9 \<le> n \<and> n \<le> 13) \<or> (28 \<le> n \<and> n \<le> 32) \<or> n = 133 \<or> n = 160)"

text \<open>\<open>s.strip()\<close>\<close>

definition strip :: "string \<Rightarrow> string" where
  "strip s = rev (dropWhile is_space (rev (dropWhile is_space s)))"


text \<open>\<open>s.upper()\<close> on the letters a to z; the only use is the test for a leading
  \<open>SELECT\<close>, which no other code point below 256 can produce.\<close>

definition upper_char :: "char \<Rightarrow> char" where
  "upper_char c =
     (let n = (of_char c :: nat) in if 97 \<le> n \<and> n \<le> 122 then char_of (n - 32) else c)"

definition upper :: "string \<Rightarrow> string" where
  "upper s = map upper_char s"

definition startswith :: "string \<Rightarrow> string \<Rightarrow> bool" where
  "startswith s p = (take (length p) s = p)"



section \<open>The storage engine\<close>

text \<open>
  Modelled from the spec: the storage engine is an external collaborator (section 6).
  This section models SQLite, the engine behind the \<open>QSQLITE\<close> driver that the
  program opens, on the statements that the program sends.
\<close>

text \<open>The engine compares names without regard to the case of the letters A to Z.\<close>

definition fold_char :: "char \<Rightarrow> char" where
  "fold_char c =
     (case map_of (zip ''ABCDEFGHIJKLMNOPQRSTUVWXYZ'' ''abcdefghijklmnopqrstuvwxyz'') c of
        None \<Rightarrow> c
      | Some l \<Rightarrow> l)"

definition fold_case :: "string \<Rightarrow> string" where
  "fold_case s = map fold_char s"

definition same_name :: "string \<Rightarrow> string \<Rightarrow> bool" where
  "same_name a b = (fold_case a = fold_case b)"

text \<open>The table or view that a database holds under a name.\<close>

definition table_of :: "database \<Rightarrow> string \<Rightarrow> table option" where
  "table_of d t = map_of (map (\<lambda>e. (fold_case (fst e), snd e)) d) (fold_case t)"

definition column_names :: "table \<Rightarrow> string list" where
  "column_names T = map fst (cols T)"

text \<open>Tables, views and indexes share one space of names; names that begin with
  \<open>sqlite_\<close> are the engine's own.\<close>

definition has_index :: "database \<Rightarrow> string \<Rightarrow> bool" where
  "has_index d n = (fold_case n \<in> set (map fold_case (concat (map (\<lambda>e. indexes (snd e)) d))))"

definition name_taken :: "database \<Rightarrow> string \<Rightarrow> bool" where
  "name_taken d n = (table_of d n \<noteq> None \<or> has_index d n)"

definition reserved :: "string \<Rightarrow> bool" where
  "reserved n = (take 7 (fold_case n) = ''sqlite_'')"

text \<open>The engine lets none of its own tables be altered, and none be dropped but those
  of its statistics and parameters.\<close>

definition kept :: "string \<Rightarrow> bool" where
  "kept n =
     (reserved n \<and> take 4 (drop 7 (fold_case n)) \<noteq> ''stat''
      \<and> take 10 (drop 7 (fold_case n)) \<noteq> ''parameters'')"

text \<open>A SELECT that has not come to its end keeps every table from being dropped.\<close>

definition busy :: "database \<Rightarrow> bool" where
  "busy d = list_ex (\<lambda>e. 0 < reads (snd e)) d"

text \<open>A view or a trigger that names a table which is not there keeps every table from
  being renamed; such a view cannot be read, and such a trigger fails when it fires.\<close>

definition missing :: "database \<Rightarrow> string \<Rightarrow> bool" where
  "missing d n = (table_of d n = None)"

definition dangling :: "database \<Rightarrow> bool" where
  "dangling d =
     list_ex (\<lambda>e. list_ex (missing d) (refers (snd e)) \<or>
                  list_ex (list_ex (missing d)) (triggers (snd e))) d"

text \<open>The rows of a table as a read of the listed columns hands them out.\<close>

definition read_rows :: "table \<Rightarrow> string list \<Rightarrow> val list list" where
  "read_rows T cl = (if indexes T = [] then rows T else read_order T cl (rows T))"

text \<open>The table that \<open>CREATE TABLE\<close> with nothing but names and types makes.\<close>

definition new_table :: "(string \<times> string) list \<Rightarrow> table" where
  "new_table cs =
     \<lparr>cols = cs, rows = [], kind = Table, indexes = [], triggers = [], refers = [],
      reads = 0, read_order = (\<lambda>cl rs. rs)\<rparr>"

text \<open>
  Modelled from the spec: \<open>PRAGMA table_info(t)\<close>, the schema introspection of the
  external engine. It lists the (name, type) of every column of \<open>t\<close>, and nothing
  for a name the database does not have or a view that cannot be read.
\<close>

definition table_info :: "database \<Rightarrow> string \<Rightarrow> (string \<times> string) list" where
  "table_info d t =
     (case table_of d t of
        None \<Rightarrow> []
      | Some T \<Rightarrow> if list_ex (missing d) (refers T) then [] else cols T)"

text \<open>The value a row holds in the column called \<open>n\<close>.\<close>

definition row_value :: "string list \<Rightarrow> val list \<Rightarrow> string \<Rightarrow> val" where
  "row_value names r n =
     (case map_of (zip (map fold_case names) r) (fold_case n) of Some x \<Rightarrow> x | None \<Rightarrow> Null)"

definition replace_table :: "string \<Rightarrow> table \<Rightarrow> database \<Rightarrow> database" where
  "replace_table t T d = map (\<lambda>e. if same_name (fst e) t then (fst e, T) else e) d"

text \<open>A rename reaches the views and triggers that name the table.\<close>

definition rename_refs :: "string \<Rightarrow> string \<Rightarrow> string list \<Rightarrow> string list" where
  "rename_refs t u ns = map (\<lambda>n. if same_name n t then u else n) ns"

definition renamed :: "string \<Rightarrow> string \<Rightarrow> string \<times> table \<Rightarrow> string \<times> table" where
  "renamed t u e =
     (if same_name (fst e) t then u else fst e,
      (snd e)\<lparr>refers := rename_refs t u (refers (snd e)),
              triggers := map (rename_refs t u) (triggers (snd e))\<rparr>)"

text \<open>
  Modelled from the spec: the external engine's execution of one statement
  (\<open>QSqlQuery.exec\<close>), which answers whether the statement ran and never raises.
  \<^item> CREATE TABLE fails when a table, view or index has the name, when the name is the
    engine's own, when the column list is empty (a syntax error) or names a column
    twice.
  \<^item> INSERT ... SELECT fails when the target is missing or a view, when a trigger on it
    names a missing table, when the source is missing or cannot be read, when the
    column list is empty or names a column that either lacks; otherwise it appends one
    row per source row, in the order in which the source is read, the unlisted columns
    NULL.
  \<^item> DROP TABLE fails when the table is missing, a view or one that the engine keeps,
    and when a SELECT of the connection has not come to its end; otherwise the table
    goes, with its indexes and triggers.
  \<^item> RENAME fails when the table is missing, a view or the engine's own, when the new
    name is taken or the engine's own, and when a view or trigger names a missing
    table.
  \<^item> ADD COLUMN fails when the table is missing, a view or the engine's own, or has the
    column; otherwise the column is appended, NULL in every row.
  A failed statement changes nothing. What a drop takes out of the engine's own tables,
  and what a trigger does when it fires, is not modelled.
\<close>

fun exec :: "stmt \<Rightarrow> database \<Rightarrow> bool \<times> database" where
  "exec (CreateTable t cs) d =
     (if name_taken d t \<or> reserved t \<or> cs = [] \<or> \<not> distinct (map (\<lambda>c. fold_case (fst c)) cs)
      then (False, d)
      else (True, d @ [(t, new_table cs)]))"
| "exec (InsertSelect t cl s) d =
     (case table_of d t of
        None \<Rightarrow> (False, d)
      | Some T \<Rightarrow>
          (case table_of d s of
             None \<Rightarrow> (False, d)
           | Some S \<Rightarrow>
               if kind T = View \<or> list_ex (list_ex (missing d)) (triggers T)
                  \<or> list_ex (missing d) (refers S) \<or> cl = []
                  \<or> \<not> set (map fold_case cl) \<subseteq> set (map fold_case (column_names T))
                  \<or> \<not> set (map fold_case cl) \<subseteq> set (map fold_case (column_names S))
               then (False, d)
               else (True,
                 replace_table t
                   (T\<lparr>rows := rows T @
                      map (\<lambda>r. map (\<lambda>n. if fold_case n \<in> set (map fold_case cl)
                                        then row_value (column_names S) r n else Null)
                                 (column_names T))
                          (read_rows S cl)\<rparr>) d)))"
| "exec (DropTable t) d =
     (case table_of d t of
        None \<Rightarrow> (False, d)
      | Some T \<Rightarrow>
          if kind T = View \<or> kept t \<or> busy d then (False, d)
          else (True, filter (\<lambda>e. \<not> same_name (fst e) t) d))"
| "exec (RenameTable t u) d =
     (case table_of d t of
        None \<Rightarrow> (False, d)
      | Some T \<Rightarrow>
          if kind T = View \<or> reserved t \<or> name_taken d u \<or> reserved u \<or> dangling d
          then (False, d)
          else (True, map (renamed t u) d))"
| "exec (AddColumn t c ty) d =
     (case table_of d t of
        None \<Rightarrow> (False, d)
      | Some T \<Rightarrow>
          if kind T = View \<or> reserved t \<or> fold_case c \<in> set (map fold_case (column_names T))
          then (False, d)
          else (True,
            replace_table t (T\<lparr>cols := cols T @ [(c, ty)], rows := map (\<lambda>r. r @ [Null]) (rows T)\<rparr>) d))"






section \<open>The viewer\<close>

text \<open>
  \<open>DatabaseViewer.display_table\<close>: a fresh table model on the table, its
  \<open>dataChanged\<close> connected to \<open>on_data_changed\<close>, selected at once. Modelled
  from the spec (section 4.3, the external table model): \<open>select\<close> reads all
  columns and loads the first 256 rows, a stored NULL as the empty text; a table the
  database does not have, or a view that cannot be read, gives a model without columns
  or rows. When the table has 256 rows or more the model's SELECT has not come to its
  end; it stays so, because every model made is kept as a child of the window. Loading
  more rows by scrolling the grid is not modelled.
\<close>

definition loaded_value :: "val \<Rightarrow> val" where
  "loaded_value x = (case x of Null \<Rightarrow> TextV [] | _ \<Rightarrow> x)"

definition select_model :: "database \<Rightarrow> string \<Rightarrow> tmodel" where
  "select_model d table_name =
     (case table_of d table_name of
        None \<Rightarrow> \<lparr>headers = [], cells = [], slot_connected = True\<rparr>
      | Some T \<Rightarrow>
          if list_ex (missing d) (refers T)
          then \<lparr>headers = [], cells = [], slot_connected = True\<rparr>
          else \<lparr>headers = column_names T,
                cells = map (map loaded_value) (take 256 (read_rows T (column_names T))),
                slot_connected = True\<rparr>)"

definition mark_read :: "database \<Rightarrow> string \<Rightarrow> database" where
  "mark_read d table_name =
     (case table_of d table_name of
        None \<Rightarrow> d
      | Some T \<Rightarrow>
          if list_ex (missing d) (refers T) \<or> length (rows T) < 256 then d
          else replace_table table_name (T\<lparr>reads := reads T + 1\<rparr>) d)"

definition display_table :: "viewer \<Rightarrow> string \<Rightarrow> viewer" where
  "display_table v table_name =
     (case db v of
        None \<Rightarrow> v
      | Some d \<Rightarrow>
          if table_name = [] then v
          else v\<lparr>db := Some (mark_read d table_name),
                 model := Some (select_model d table_name),
                 status_bar := ''Displaying table: '' @ table_name\<rparr>)"

text \<open>\<open>table_combo.clear()\<close> followed by \<open>table_combo.addItems(db.tables())\<close>:
  the first table becomes the current text, and the \<open>currentTextChanged\<close> signal
  runs \<open>display_table\<close> on it. \<open>db.tables()\<close> lists the tables, not the views.\<close>

definition refresh_tables :: "viewer \<Rightarrow> viewer" where
  "refresh_tables v =
     (case db v of
        None \<Rightarrow> v
      | Some d \<Rightarrow>
          (case map fst (filter (\<lambda>e. kind (snd e) = Table) d) of
             [] \<Rightarrow> v\<lparr>table_combo := []\<rparr>
           | t # _ \<Rightarrow> display_table (v\<lparr>table_combo := t\<rparr>) t))"

text \<open>The text of a history item, as \<open>execute_query\<close> builds it.\<close>

definition history_item :: "datetime \<Rightarrow> string \<Rightarrow> string" where
  "history_item now query_text = strftime now @ '': '' @ take 50 query_text @ ''...''"

text \<open>\<open>DatabaseViewer.execute_query\<close>. \<open>run\<close> is the engine's answer to the
  text (\<open>QSqlQuery.exec\<close>, whose result the code branches on) and \<open>now\<close> is
  \<open>datetime.now()\<close>.\<close>

definition execute_query ::
    "(string \<Rightarrow> database \<Rightarrow> query_result) \<Rightarrow> datetime \<Rightarrow> viewer \<Rightarrow> viewer" where
  "execute_query run now v =
     (case db v of
        None \<Rightarrow> v\<lparr>messages := messages v @ [(''Warning'', ''No database connected'')]\<rparr>
      | Some d \<Rightarrow>
          let query_text = strip (query_input v) in
          if query_text = [] then v
          else
            (case run query_text d of
               QDone d' hs rs \<Rightarrow>
                 let v1 = v\<lparr>db := Some d',
                             query_history := query_history v @ [history_item now query_text]\<rparr>
                 in if startswith (upper (strip query_text)) ''SELECT''
                    then v1\<lparr>model := Some \<lparr>headers = hs, cells = rs, slot_connected = False\<rparr>,
                            status_bar := ''Query executed successfully''\<rparr>
                    else (refresh_tables v1)\<lparr>status_bar := ''Query executed successfully''\<rparr>
             | QFailed err \<Rightarrow>
                 v\<lparr>messages := messages v @ [(''Error'', ''Query error: '' @ err)],
                   status_bar := ''Query execution failed''\<rparr>))"



section \<open>Dropping and adding a column\<close>

text \<open>
  The statement sequence that \<open>delete_column\<close>, \<open>DeleteColumnCommand.redo\<close> and
  \<open>AddColumnCommand.undo\<close> each spell out, line for line the same: read the schema,
  keep the columns with another name, create \<open>{table_name}_temp\<close>, copy, drop,
  rename. The code discards what every \<open>query.exec\<close> returns; the model returns the
  four answers next to the database so that they can be spoken about. \<open>db.commit()\<close>
  outside a transaction does nothing.
\<close>

definition drop_column_steps :: "database \<Rightarrow> string \<Rightarrow> string \<Rightarrow> bool list \<times> database" where
  "drop_column_steps d table_name column_name =
     (let columns_info = filter (\<lambda>col. fst col \<noteq> column_name) (table_info d table_name);
          temp_table = table_name @ ''_temp'';
          (ok1, d1) = exec (CreateTable temp_table columns_info) d;
          columns_list = map fst columns_info;
          (ok2, d2) = exec (InsertSelect temp_table columns_list table_name) d1;
          (ok3, d3) = exec (DropTable table_name) d2;
          (ok4, d4) = exec (RenameTable temp_table table_name) d3
      in ([ok1, ok2, ok3, ok4], d4))"

text \<open>\<open>DeleteColumnCommand.redo\<close> and \<open>AddColumnCommand.undo\<close>\<close>

definition DeleteColumnCommand_redo :: "string \<Rightarrow> string \<Rightarrow> database \<Rightarrow> database" where
  "DeleteColumnCommand_redo table_name column_name d = snd (drop_column_steps d table_name column_name)"

definition AddColumnCommand_undo :: "string \<Rightarrow> string \<Rightarrow> database \<Rightarrow> database" where
  "AddColumnCommand_undo table_name column_name d = snd (drop_column_steps d table_name column_name)"

text \<open>\<open>DeleteColumnCommand.undo\<close> and \<open>AddColumnCommand.redo\<close>\<close>

definition DeleteColumnCommand_undo :: "string \<Rightarrow> string \<Rightarrow> database \<Rightarrow> database" where
  "DeleteColumnCommand_undo table_name column_name d = snd (exec (AddColumn table_name column_name ''TEXT'') d)"

definition AddColumnCommand_redo :: "string \<Rightarrow> string \<Rightarrow> database \<Rightarrow> database" where
  "AddColumnCommand_redo table_name column_name d = snd (exec (AddColumn table_name column_name ''TEXT'') d)"

text \<open>A command holds the viewer's connection; on a viewer without one its statements
  fail and nothing changes.\<close>

definition on_db :: "(database \<Rightarrow> database) \<Rightarrow> viewer \<Rightarrow> viewer" where
  "on_db f v = (case db v of None \<Rightarrow> v | Some d \<Rightarrow> v\<lparr>db := Some (f d)\<rparr>)"

section \<open>The table model and the undo stack\<close>

text \<open>
  Modelled from the spec: the external table model (\<open>QSqlTableModel\<close>, section 4.3).
  An index is valid inside the loaded rows and columns. \<open>data\<close> answers the display
  role with the cell and every other role, the user role among them, with the invalid
  variant, which Python reads as \<open>None\<close>.
\<close>

definition valid_index :: "tmodel \<Rightarrow> nat \<Rightarrow> nat \<Rightarrow> bool" where
  "valid_index m row col =
     (row < length (cells m) \<and> col < length (headers m) \<and> col < length (cells m ! row))"

definition model_data :: "tmodel \<Rightarrow> nat \<Rightarrow> nat \<Rightarrow> role \<Rightarrow> val" where
  "model_data m row col r =
     (if valid_index m row col \<and> r = DisplayRole then cells m ! row ! col else Null)"

definition store_cell :: "tmodel \<Rightarrow> nat \<Rightarrow> nat \<Rightarrow> val \<Rightarrow> tmodel" where
  "store_cell m row col x = m\<lparr>cells := (cells m)[row := (cells m ! row)[col := x]]\<rparr>"

text \<open>The status text of \<open>on_data_changed\<close>.\<close>

definition cell_status :: "nat \<Rightarrow> nat \<Rightarrow> string" where
  "cell_status row col = ''Cell updated at row '' @ str_nat row @ '', column '' @ str_nat col"

text \<open>Whether writing \<open>x\<close> to a cell would change the model.\<close>

definition differs :: "viewer \<Rightarrow> nat \<Rightarrow> nat \<Rightarrow> val \<Rightarrow> bool" where
  "differs v row col x =
     (case model v of
        None \<Rightarrow> False
      | Some m \<Rightarrow> valid_index m row col \<and> model_data m row col DisplayRole \<noteq> x)"

text \<open>
  Four pieces of the source call each other:
  \<^item> \<open>setData\<close> is \<open>model.setData(model.index(row, col), x)\<close>, the call of a cell
    edit in the grid and of \<open>UpdateCommand.redo\<close> and \<open>undo\<close>. Modelled from the
    spec (section 4.3, the external table model): an invalid index or an unchanged value
    changes nothing; otherwise the cell is stored and the \<open>dataChanged\<close> signal
    runs the slot if \<open>display_table\<close> connected it. The write to storage that the
    edit strategy OnFieldChange makes at once is not modelled: a cell's stored value is
    the model's.
  \<^item> \<open>on_data_changed\<close> is that slot, \<open>DatabaseViewer.on_data_changed\<close>.
  \<^item> \<open>push\<close> is \<open>undo_stack.push\<close>. Modelled from the spec (section 4.4, the
    external \<open>QUndoStack\<close>): it runs the command's \<open>redo\<close>, drops the commands
    from the cursor on, appends the command and moves the cursor behind it.
  \<^item> \<open>command_redo\<close> is the \<open>redo\<close> method of each command class.
  The model a command holds is taken to be the viewer's current model. The calls end
  because the command that \<open>on_data_changed\<close> pushes writes the value the cell
  already holds.
\<close>

function setData :: "viewer \<Rightarrow> nat \<Rightarrow> nat \<Rightarrow> val \<Rightarrow> viewer"
  and on_data_changed :: "viewer \<Rightarrow> nat \<Rightarrow> nat \<Rightarrow> viewer"
  and push :: "viewer \<Rightarrow> command \<Rightarrow> viewer"
  and command_redo :: "command \<Rightarrow> viewer \<Rightarrow> viewer"
where
  "setData v row col x =
     (case model v of
        None \<Rightarrow> v
      | Some m \<Rightarrow>
          if \<not> valid_index m row col \<or> model_data m row col DisplayRole = x then v
          else if slot_connected m
          then on_data_changed (v\<lparr>model := Some (store_cell m row col x)\<rparr>) row col
          else v\<lparr>model := Some (store_cell m row col x)\<rparr>)"
| "on_data_changed v row col =
     (case model v of
        None \<Rightarrow> v
      | Some m \<Rightarrow>
          let new_value = model_data m row col DisplayRole;
              old_value = model_data m row col UserRole
          in if old_value \<noteq> new_value
             then (push v (UpdateCommand row col old_value new_value))
                    \<lparr>status_bar := cell_status row col\<rparr>
             else v)"
| "push v cmd =
     (let v1 = command_redo cmd v
      in v1\<lparr>commands := take (index v1) (commands v1) @ [cmd], index := index v1 + 1\<rparr>)"
| "command_redo (UpdateCommand row col old_value new_value) v = setData v row col new_value"
| "command_redo (AddColumnCommand table_name column_name) v =
     on_db (AddColumnCommand_redo table_name column_name) v"
| "command_redo (DeleteColumnCommand table_name column_name) v =
     on_db (DeleteColumnCommand_redo table_name column_name) v"
  by pat_completeness auto

termination
  apply (relation "measure (\<lambda>a. case a of
      Inl (Inl (v, row, col, x)) \<Rightarrow> if differs v row col x then 4 else 0
    | Inl (Inr (v, row, col)) \<Rightarrow> 3
    | Inr (Inl (v, cmd)) \<Rightarrow>
        (case cmd of
           UpdateCommand row col ov nv \<Rightarrow> if differs v row col nv then 6 else 2
         | _ \<Rightarrow> 2)
    | Inr (Inr (cmd, v)) \<Rightarrow>
        (case cmd of
           UpdateCommand row col ov nv \<Rightarrow> if differs v row col nv then 5 else 1
         | _ \<Rightarrow> 1))")
      apply (auto simp: differs_def split: command.splits)
  done

declare setData.simps [simp del] on_data_changed.simps [simp del] push.simps [simp del]

text \<open>The \<open>undo\<close> method of each command class.\<close>

fun command_undo :: "command \<Rightarrow> viewer \<Rightarrow> viewer" where
  "command_undo (UpdateCommand row col old_value new_value) v = setData v row col old_value"
| "command_undo (AddColumnCommand table_name column_name) v =
     on_db (AddColumnCommand_undo table_name column_name) v"
| "command_undo (DeleteColumnCommand table_name column_name) v =
     on_db (DeleteColumnCommand_undo table_name column_name) v"

text \<open>
  Modelled from the spec: \<open>undo_stack.undo\<close> and \<open>undo_stack.redo\<close> of the external
  \<open>QUndoStack\<close> (section 4.4). Undo does nothing with the cursor at the start;
  otherwise it reverses the command left of the cursor and moves the cursor left. Redo
  does nothing with the cursor at the end; otherwise it runs the command at the cursor
  forward and moves the cursor right. The stack keeps its cursor within the list.
\<close>

definition undo :: "viewer \<Rightarrow> viewer" where
  "undo v =
     (if index v = 0 then v
      else let idx = index v - 1;
               v1 = command_undo (commands v ! idx) v
           in v1\<lparr>index := idx\<rparr>)"

definition redo :: "viewer \<Rightarrow> viewer" where
  "redo v =
     (if index v = length (commands v) then v
      else let v1 = command_redo (commands v ! index v) v
           in v1\<lparr>index := index v1 + 1\<rparr>)"

definition warn_no_table :: "viewer \<Rightarrow> viewer" where
  "warn_no_table v =
     v\<lparr>messages := messages v @ [(''Warning'', ''No table selected or no database connected'')]\<rparr>"


text \<open>\<open>DatabaseViewer.delete_column\<close>. \<open>column_name\<close> and \<open>ok\<close> are the answer
  of the item dialog, which offers the headers of the current model, and \<open>reply\<close>
  says whether the confirmation was answered Yes. Reading the headers of no model raises
  AttributeError outside the \<open>try\<close>. Inside the \<open>try\<close> nothing raises: the
  statements answer with a truth value that the code does not read.\<close>

definition delete_column :: "viewer \<Rightarrow> string \<Rightarrow> bool \<Rightarrow> bool \<Rightarrow> py_error + viewer" where
  "delete_column v column_name ok reply =
     (case db v of
        None \<Rightarrow> Inr (warn_no_table v)
      | Some d \<Rightarrow>
          if table_combo v = [] then Inr (warn_no_table v)
          else
            (case model v of
               None \<Rightarrow> Inl AttributeError
             | Some m \<Rightarrow>
                 if ok \<and> column_name \<noteq> [] \<and> reply then
                   (let table_name = table_combo v;
                        (answers, d') = drop_column_steps d table_name column_name
                    in Inr (push ((display_table (v\<lparr>db := Some d'\<rparr>) table_name)
                                    \<lparr>status_bar := ''Column '' @ column_name @ '' deleted''\<rparr>)
                                 (DeleteColumnCommand table_name column_name)))
                 else Inr v))"

section \<open>Export\<close>

text \<open>\<open>str(data)\<close>\<close>

fun str_val :: "val \<Rightarrow> string" where
  "str_val Null = ''None''"
| "str_val (IntV i) = str_int i"
| "str_val (TextV s) = s"

text \<open>\<open>", ".join(xs)\<close> and its like.\<close>

fun join :: "string \<Rightarrow> string list \<Rightarrow> string" where
  "join sep [] = []"
| "join sep [x] = x"
| "join sep (x # y # ys) = x @ sep @ join sep (y # ys)"

text \<open>
  Modelled from the spec: the external CSV writer with its default quoting (section 6),
  \<open>csv.writer(csvfile).writerow\<close>. A field holding a comma, a double quote, a carriage
  return or a line feed is put in double quotes, its double quotes doubled; fields are
  joined by commas; a row of one empty field is written as two double quotes; the row
  ends with carriage return and line feed.
\<close>

definition csv_special :: "char \<Rightarrow> bool" where
  "csv_special c = (c = CHR '','' \<or> c = CHR 0x22 \<or> c = CHR 0x0D \<or> c = CHR 0x0A)"

definition csv_field :: "string \<Rightarrow> string" where
  "csv_field f =
     (if list_ex csv_special f
      then [CHR 0x22] @ concat (map (\<lambda>c. if c = CHR 0x22 then [c, c] else [c]) f) @ [CHR 0x22]
      else f)"

definition csv_record :: "string list \<Rightarrow> string" where
  "csv_record fs =
     (if fs = [[]] then [CHR 0x22, CHR 0x22] else join '','' (map csv_field fs))"

definition writerow :: "string list \<Rightarrow> string" where
  "writerow fs = csv_record fs @ [CHR 0x0D, CHR 0x0A]"

text \<open>The rows that \<open>export_to_csv\<close> hands to the writer: the headers, then every
  loaded row with each cell read in the display role and stringified.\<close>

definition export_rows :: "tmodel \<Rightarrow> string list list" where
  "export_rows m =
     headers m #
     map (\<lambda>row. map (\<lambda>col. str_val (model_data m row col DisplayRole)) [0..<length (headers m)])
         [0..<length (cells m)]"

text \<open>\<open>DatabaseViewer.export_to_csv\<close>. \<open>file_name\<close> is the answer of the save
  dialog and \<open>can_open\<close> says whether the file could be opened for writing. The result
  is the viewer and the text written, if any. The error text of a failed \<open>open\<close> is not
  part of the model.\<close>

definition export_to_csv :: "viewer \<Rightarrow> string \<Rightarrow> bool \<Rightarrow> viewer \<times> string option" where
  "export_to_csv v file_name can_open =
     (case model v of
        None \<Rightarrow> (v\<lparr>messages := messages v @ [(''Warning'', ''No table selected'')]\<rparr>, None)
      | Some m \<Rightarrow>
          if file_name = [] then (v, None)
          else if can_open
          then (v\<lparr>status_bar := ''Exported to '' @ file_name\<rparr>,
                Some (concat (map writerow (export_rows m))))
          else (v\<lparr>messages := messages v @ [(''Error'', ''Error exporting to CSV: '')],
                  status_bar := ''Export failed''\<rparr>, None))"

text \<open>The lines of a text: the pieces that end in a line feed, and what follows the last
  one if anything does.\<close>

fun lines_from :: "string \<Rightarrow> string \<Rightarrow> string list" where
  "lines_from cur [] = (if cur = [] then [] else [rev cur])"
| "lines_from cur (c # s) =
     (if c = CHR 0x0A then rev cur # lines_from [] s else lines_from (c # cur) s)"

definition text_lines :: "string \<Rightarrow> string list" where
  "text_lines s = lines_from [] s"

section \<open>Sample inputs\<close>

text \<open>Two engines for the query box, one that rejects every text and one that accepts
  every text and changes nothing; a time of day; a connected viewer that shows nothing
  yet.\<close>

definition failing_engine :: "string \<Rightarrow> database \<Rightarrow> query_result" where
  "failing_engine q d = QFailed ''syntax error''"

definition accepting_engine :: "string \<Rightarrow> database \<Rightarrow> query_result" where
  "accepting_engine q d = QDone d [] []"

definition noon :: datetime where
  "noon = \<lparr>year = 2024, month = 5, day = 17, hour = 12, minute = 0, second = 9\<rparr>"

definition connected_viewer :: "database \<Rightarrow> string \<Rightarrow> viewer" where
  "connected_viewer d q =
     \<lparr>db = Some d, model = None, table_combo = [], commands = [], index = 0,
      status_bar = ''No database connected'', messages = [], query_input = q,
      query_history = []\<rparr>"

text \<open>A viewer that displays table \<open>t\<close> of database \<open>d\<close>.\<close>

definition showing :: "database \<Rightarrow> string \<Rightarrow> viewer" where
  "showing d t = display_table ((connected_viewer d [])\<lparr>table_combo := t\<rparr>) t"

section \<open>Auxiliary notions\<close>


text \<open>A table of the given columns and rows with nothing else to it, as a
  \<open>CREATE TABLE\<close> of names and types followed by inserts leaves it.\<close>

definition plain_table :: "(string \<times> string) list \<Rightarrow> val list list \<Rightarrow> table" where
  "plain_table cs rs = (new_table cs)\<lparr>rows := rs\<rparr>"





text \<open>A database of tables only, without views, triggers and tables of the engine's own
  (such as \<open>sqlite_sequence\<close>, which a drop of another table changes), on which no
  SELECT is unfinished.\<close>

definition ordinary :: "database \<Rightarrow> bool" where
  "ordinary d =
     list_all (\<lambda>e. kind (snd e) = Table \<and> triggers (snd e) = [] \<and> refers (snd e) = [] \<and>
                    reads (snd e) = 0 \<and> \<not> reserved (fst e)) d"

text \<open>The table that a viewer's database holds under a name.\<close>

definition lookup :: "viewer \<Rightarrow> string \<Rightarrow> table option" where
  "lookup v t = (case db v of None \<Rightarrow> None | Some d \<Rightarrow> table_of d t)"

text \<open>Sample tables: one with two columns, one as \<open>create_table\<close> makes it (a
  single \<open>id\<close> column) with two rows, and one of another shape.\<close>

definition people :: table where
  "people =
     plain_table [(''id'', ''INTEGER''), (''name'', ''TEXT'')]
       [[IntV 1, TextV ''Ann''], [IntV 2, TextV ''Bob'']]"

definition ids_only :: table where
  "ids_only = plain_table [(''id'', ''INTEGER'')] [[IntV 1], [IntV 2]]"




text \<open>The value the grid shows in a cell.\<close>

definition cell :: "viewer \<Rightarrow> nat \<Rightarrow> nat \<Rightarrow> val" where
  "cell v row col =
     (case model v of None \<Rightarrow> Null | Some m \<Rightarrow> model_data m row col DisplayRole)"

text \<open>The commands that the \<open>dataChanged\<close> slot pushes while a command's
  forward action runs: one update command, its old value NULL, when the action changes a
  cell of a model that \<open>display_table\<close> made to a value other than NULL; none
  otherwise.\<close>

definition slot_commands :: "viewer \<Rightarrow> command \<Rightarrow> command list" where
  "slot_commands v cmd =
     (case cmd of
        UpdateCommand row col old_value new_value \<Rightarrow>
          (case model v of
             None \<Rightarrow> []
           | Some m \<Rightarrow>
               if valid_index m row col \<and> model_data m row col DisplayRole \<noteq> new_value
                  \<and> slot_connected m \<and> new_value \<noteq> Null
               then [UpdateCommand row col Null new_value]
               else [])
      | _ \<Rightarrow> [])"

text \<open>A model with one header and one cell, whose text has a line feed in it.\<close>

definition two_line_cell :: tmodel where
  "two_line_cell =
     \<lparr>headers = [''note''], cells = [[TextV [CHR ''a'', CHR 0x0A, CHR ''b'']]],
      slot_connected = True\<rparr>"


text \<open>A table of 256 rows; a view that reads table \<open>people\<close>; and a table with an
  index called \<open>people_temp\<close>.\<close>

definition crowd :: table where
  "crowd =
     plain_table [(''id'', ''INTEGER''), (''name'', ''TEXT'')] (replicate 256 [IntV 0, TextV ''Ann''])"

definition adults :: table where
  "adults = (plain_table [(''name'', ''TEXT'')] [[TextV ''Ann'']])\<lparr>kind := View, refers := [''people'']\<rparr>"

definition memos :: table where
  "memos = (plain_table [(''x'', ''TEXT'')] [])\<lparr>indexes := [''people_temp'']\<rparr>"

section \<open>Facts about the string functions\<close>
















lemma strip_sample: "strip ''SELECT 1'' = ''SELECT 1''" "strip ''SELEC 1'' = ''SELEC 1''"
  by (simp_all add: strip_def is_space_def)

lemma strftime_noon: "strftime noon = ''2024-05-17 12:00:09''"
  by (simp add: strftime_def noon_def zero_pad_def str_nat.simps digit_char_def)

section \<open>Facts about the storage engine\<close>


lemma same_name_refl [simp]: "same_name t t"
  by (simp add: same_name_def)


lemma table_of_Nil: "table_of [] k = None"
  by (simp add: table_of_def)

lemma table_of_Cons:
  "table_of (e # d) k = (if same_name k (fst e) then Some (snd e) else table_of d k)"
  by (auto simp: table_of_def same_name_def)

lemma table_of_append_entry:
  "table_of (d @ [(u, X)]) k =
     (case table_of d k of Some y \<Rightarrow> Some y | None \<Rightarrow> if same_name k u then Some X else None)"
  by (induction d) (auto simp: table_of_Nil table_of_Cons)















lemma plain_table_fields:
  "cols (plain_table cs rs) = cs" "rows (plain_table cs rs) = rs"
  "kind (plain_table cs rs) = Table" "indexes (plain_table cs rs) = []"
  "triggers (plain_table cs rs) = []" "refers (plain_table cs rs) = []"
  "reads (plain_table cs rs) = 0"
  "column_names (plain_table cs rs) = map fst cs"
  by (simp_all add: plain_table_def new_table_def column_names_def)






lemma people_fields:
  "cols people = [(''id'', ''INTEGER''), (''name'', ''TEXT'')]"
  "rows people = [[IntV 1, TextV ''Ann''], [IntV 2, TextV ''Bob'']]"
  "column_names people = [''id'', ''name'']"
  "kind people = Table" "indexes people = []" "triggers people = []" "refers people = []"
  "reads people = 0"
  by (simp_all add: people_def plain_table_fields)

lemma ids_only_fields:
  "cols ids_only = [(''id'', ''INTEGER'')]"
  "rows ids_only = [[IntV 1], [IntV 2]]"
  "column_names ids_only = [''id'']"
  "kind ids_only = Table" "indexes ids_only = []" "triggers ids_only = []" "refers ids_only = []"
  "reads ids_only = 0"
  by (simp_all add: ids_only_def plain_table_fields)




text \<open>Outside these conditions the sequence leaves the table as it was, leaves it
  under another name or loses it. While a grid shows a table of 256 rows its SELECT is unfinished: the copy is
  made but the drop and the rename are refused. With a view that reads the table the
  rename is refused, and the rows are left in \<open>people_temp\<close>. With an index called
  \<open>people_temp\<close> only the drop runs.\<close>

lemma drop_column_of_displayed_crowd:
  "fst (drop_column_steps (the (db (showing [(''people'', crowd)] ''people''))) ''people'' ''name'')
     = [True, True, False, False]"
  by (simp add: showing_def display_table_def connected_viewer_def mark_read_def
      drop_column_steps_def table_info_def crowd_def
      plain_table_def new_table_def column_names_def table_of_Cons table_of_Nil
      table_of_append_entry name_taken_def
      has_index_def reserved_def same_name_def fold_case_def fold_char_def busy_def dangling_def
      replace_table_def read_rows_def missing_def kept_def)

lemma drop_column_under_a_view:
  "drop_column_steps [(''people'', people), (''adults'', adults)] ''people'' ''name'' =
     ([True, True, True, False],
      [(''adults'', adults), (''people_temp'', plain_table [(''id'', ''INTEGER'')] [[IntV 1], [IntV 2]])])"
  by (simp add: drop_column_steps_def table_info_def people_def adults_def
      plain_table_def new_table_def column_names_def table_of_Cons table_of_Nil
      name_taken_def row_value_def
      has_index_def reserved_def same_name_def fold_case_def fold_char_def busy_def dangling_def
      replace_table_def read_rows_def missing_def kept_def)

lemma drop_column_beside_an_index:
  "drop_column_steps [(''people'', people), (''memos'', memos)] ''people'' ''name'' =
     ([False, False, True, False], [(''memos'', memos)])"
  by (simp add: drop_column_steps_def table_info_def people_def memos_def
      plain_table_def new_table_def column_names_def table_of_Cons table_of_Nil
      name_taken_def row_value_def
      has_index_def reserved_def same_name_def fold_case_def fold_char_def busy_def dangling_def
      replace_table_def read_rows_def missing_def kept_def)

section \<open>Facts about the column actions\<close>











text \<open>A table of fewer than 256 rows is read to its end when it is displayed.\<close>

lemma mark_read_small:
  "table_of d t = Some T \<Longrightarrow> length (rows T) < 256 \<Longrightarrow> mark_read d t = d"
  by (simp add: mark_read_def)

lemma mark_read_missing:
  "table_of d t = None \<Longrightarrow> mark_read d t = d"
  by (simp add: mark_read_def)





lemma showing_fields:
  "t \<noteq> [] \<Longrightarrow> db (showing d t) = Some (mark_read d t)"
  "t \<noteq> [] \<Longrightarrow> table_combo (showing d t) = t"
  "t \<noteq> [] \<Longrightarrow> model (showing d t) = Some (select_model d t)"
  "t \<noteq> [] \<Longrightarrow> messages (showing d t) = []"
  "t \<noteq> [] \<Longrightarrow> commands (showing d t) = []"
  "t \<noteq> [] \<Longrightarrow> index (showing d t) = 0"
  by (simp_all add: showing_def display_table_def connected_viewer_def)

lemma delete_column_unfold:
  assumes "db v = Some d" and "table_combo v = t" and "t \<noteq> []" and "model v = Some m"
    and "c \<noteq> []"
  shows "delete_column v c True True =
     Inr (v\<lparr>db := Some (snd (drop_column_steps (mark_read (snd (drop_column_steps d t c)) t) t c)),
            model := Some (select_model (snd (drop_column_steps d t c)) t),
            status_bar := ''Column '' @ c @ '' deleted'',
            commands := take (index v) (commands v) @ [DeleteColumnCommand t c],
            index := index v + 1\<rparr>)"
  using assms
  by (simp add: delete_column_def push.simps on_db_def DeleteColumnCommand_redo_def
      display_table_def split: prod.splits)


lemma showing_small:
  assumes "t \<noteq> []" and "table_of d t = Some T" and "length (rows T) < 256"
  shows "db (showing d t) = Some d"
  using assms by (simp add: showing_fields mark_read_small)

lemma sample_engine_facts:
  "table_of [(''people'', T)] ''people'' = Some T"
  "\<not> name_taken [(''people'', people)] ''people_temp''"
  "\<not> has_index [(''people'', people)] ''people''"
  "\<not> name_taken [(''people'', ids_only)] ''people_temp''"
  "\<not> has_index [(''people'', ids_only)] ''people''"
  "\<not> reserved ''people_temp''"
  "ordinary [(''people'', people)]" "ordinary [(''people'', ids_only)]"
  by (simp_all add: table_of_Cons table_of_Nil name_taken_def has_index_def reserved_def
      ordinary_def people_fields ids_only_fields same_name_def fold_case_def fold_char_def)


text \<open>
  C3 fails on the code. On a table with the single column \<open>id\<close>, as \<open>create_table\<close>
  makes it, \<open>delete_column\<close> sends \<open>CREATE TABLE people_temp ()\<close>, which the engine
  rejects, then the copy, which it rejects, then the drop, which it runs, then the
  rename, which it rejects. No message box is shown, the status bar reads
  \<open>Column id deleted\<close>, and the table is gone.
\<close>

theorem failed_steps_are_not_surfaced:
  "fst (drop_column_steps [(''people'', ids_only)] ''people'' ''id'') = [False, False, True, False]
   \<and> \<not> isl (delete_column (showing [(''people'', ids_only)] ''people'') ''id'' True True)
   \<and> messages (projr (delete_column (showing [(''people'', ids_only)] ''people'') ''id'' True True)) = []
   \<and> status_bar (projr (delete_column (showing [(''people'', ids_only)] ''people'') ''id'' True True))
       = ''Column id deleted''
   \<and> lookup (projr (delete_column (showing [(''people'', ids_only)] ''people'') ''id'' True True))
       ''people'' = None"
proof -
  have 1: "drop_column_steps [(''people'', ids_only)] ''people'' ''id'' = ([False, False, True, False], [])"
    by (simp add: drop_column_steps_def table_info_def ids_only_def plain_table_def
        new_table_def table_of_Cons table_of_Nil name_taken_def has_index_def reserved_def
        same_name_def fold_case_def fold_char_def busy_def kept_def)
  have 2: "drop_column_steps [] ''people'' ''id'' = ([False, False, False, False], [])"
    by (simp add: drop_column_steps_def table_info_def table_of_Nil name_taken_def)
  have 3: "db (showing [(''people'', ids_only)] ''people'') = Some [(''people'', ids_only)]"
    by (rule showing_small [OF _ sample_engine_facts(1)]) (simp_all add: ids_only_fields)
  show ?thesis
    by (simp add: delete_column_unfold [OF 3 showing_fields(2) _ showing_fields(3)]
        showing_fields 1 2 lookup_def mark_read_missing table_of_Nil)
qed










section \<open>The query history\<close>

lemma query_history_display_table:
  "query_history (display_table v t) = query_history v"
  by (simp add: display_table_def split: option.splits)

lemma query_history_refresh_tables:
  "query_history (refresh_tables v) = query_history v"
  by (simp add: refresh_tables_def query_history_display_table split: option.splits list.splits)

lemma query_history_execute_query:
  assumes "db v = Some d" and "strip (query_input v) \<noteq> []"
  shows "query_history (execute_query run now v) =
     (case run (strip (query_input v)) d of
        QDone d' hs rs \<Rightarrow> query_history v @ [history_item now (strip (query_input v))]
      | QFailed err \<Rightarrow> query_history v)"
  using assms
  by (simp add: execute_query_def Let_def query_history_refresh_tables split: query_result.splits)

lemma failed_query_is_shown:
  assumes "db v = Some d" and "strip (query_input v) \<noteq> []"
    and "run (strip (query_input v)) d = QFailed err"
  shows "messages (execute_query run now v) = messages v @ [(''Error'', ''Query error: '' @ err)]"
    and "status_bar (execute_query run now v) = ''Query execution failed''"
  using assms by (simp_all add: execute_query_def Let_def)

text \<open>
  C4, as the code has it. A statement is attempted when a database is connected and the
  stripped text of the query box is not empty. The history gains an item exactly when the
  engine accepts the statement: the time stamp, \<open>": "\<close>, the first 50 characters of the
  text and \<open>"..."\<close>. A statement the engine rejects leaves the history as it was; a
  message box shows \<open>Query error:\<close> with the engine's error text, and the status
  bar reads \<open>Query execution failed\<close>.
\<close>

theorem history_appended_on_success_only:
  assumes "db v = Some d" and "strip (query_input v) = q" and "q \<noteq> []"
  shows "(case run q d of
            QDone d' hs rs \<Rightarrow>
              query_history (execute_query run now v) =
                query_history v @ [strftime now @ '': '' @ take 50 q @ ''...'']
          | QFailed err \<Rightarrow>
              query_history (execute_query run now v) = query_history v
              \<and> messages (execute_query run now v) =
                  messages v @ [(''Error'', ''Query error: '' @ err)]
              \<and> status_bar (execute_query run now v) = ''Query execution failed'')"
proof (cases "run q d")
  case (QFailed err)
  with assms failed_query_is_shown [of v d run err now]
    query_history_execute_query [of v d run now]
  show ?thesis by simp
next
  case (QDone d' hs rs)
  with assms query_history_execute_query [of v d run now]
  show ?thesis by (simp add: history_item_def)
qed

theorem history_appended_on_success_only_witness:
  "query_history (execute_query accepting_engine noon (connected_viewer [] ''SELECT 1'')) =
     [''2024-05-17 12:00:09: SELECT 1...'']"
  using history_appended_on_success_only
    [of "connected_viewer [] ''SELECT 1''" "[]" "''SELECT 1''" accepting_engine noon]
  by (simp add: connected_viewer_def strip_sample accepting_engine_def strftime_noon)

text \<open>C4 as stated fails: the rejected text \<open>SELEC 1\<close> was attempted and the history
  stays empty.\<close>

theorem failed_query_not_in_history:
  "query_history (execute_query failing_engine noon (connected_viewer [] ''SELEC 1'')) = []
   \<and> messages (execute_query failing_engine noon (connected_viewer [] ''SELEC 1'')) =
       [(''Error'', ''Query error: syntax error'')]"
  by (simp add: execute_query_def connected_viewer_def strip_sample failing_engine_def)



section \<open>The undo stack\<close>

lemma showing_people_model:
  "model (showing [(''people'', people)] ''people'') =
     Some \<lparr>headers = [''id'', ''name''],
           cells = [[IntV 1, TextV ''Ann''], [IntV 2, TextV ''Bob'']], slot_connected = True\<rparr>"
  by (simp add: showing_fields select_model_def sample_engine_facts people_fields read_rows_def
      loaded_value_def)

text \<open>The slot reads the old value in the user role, which the table model answers with
  the invalid variant whatever the cell held.\<close>

lemma old_value_is_null: "model_data m row col UserRole = Null"
  by (simp add: model_data_def)

lemma valid_index_store_cell:
  "valid_index (store_cell m row col x) r c = valid_index m r c"
proof -
  have "length ((cells m)[row := (cells m ! row)[col := x]] ! r) = length (cells m ! r)"
    if "r < length (cells m)"
    using that by (cases "r = row") simp_all
  then show ?thesis
    by (auto simp: valid_index_def store_cell_def)
qed

lemma model_data_store_cell:
  "valid_index m row col \<Longrightarrow> model_data (store_cell m row col x) row col DisplayRole = x"
  by (simp add: model_data_def valid_index_store_cell) (simp add: store_cell_def valid_index_def)

text \<open>An edit that changes a cell of a model made by \<open>display_table\<close>: the cell is
  stored and one update command is pushed, its old value NULL.\<close>

lemma setData_edit:
  assumes "model v = Some m" and "slot_connected m" and "valid_index m row col"
    and "model_data m row col DisplayRole \<noteq> x" and "x \<noteq> Null"
  shows "setData v row col x =
     v\<lparr>model := Some (store_cell m row col x),
       commands := take (index v) (commands v) @ [UpdateCommand row col Null x],
       index := index v + 1,
       status_bar := cell_status row col\<rparr>"
proof -
  let ?v1 = "v\<lparr>model := Some (store_cell m row col x)\<rparr>"
  have sc: "slot_connected (store_cell m row col x)"
    using assms(2) by (simp add: store_cell_def)
  have same: "setData ?v1 row col x = ?v1"
    using assms(3) by (simp add: setData.simps model_data_store_cell)
  have "on_data_changed ?v1 row col =
      (push ?v1 (UpdateCommand row col Null x))\<lparr>status_bar := cell_status row col\<rparr>"
    using assms(3) assms(5)
    by (simp add: on_data_changed.simps model_data_store_cell old_value_is_null Let_def)
  also have "push ?v1 (UpdateCommand row col Null x) =
      ?v1\<lparr>commands := take (index v) (commands v) @ [UpdateCommand row col Null x],
          index := index v + 1\<rparr>"
    by (simp add: push.simps same Let_def)
  finally show ?thesis
    using assms by (simp add: setData.simps)
qed

text \<open>Whatever the cell held, the undo of such an edit leaves NULL in it.\<close>

lemma undo_of_edit_gives_null:
  assumes "model v = Some m" and "slot_connected m" and "valid_index m row col"
    and "model_data m row col DisplayRole \<noteq> x" and "x \<noteq> Null"
    and "index v \<le> length (commands v)"
  shows "cell (undo (setData v row col x)) row col = Null"
proof -
  let ?m1 = "store_cell m row col x"
  let ?v1 = "v\<lparr>model := Some ?m1,
       commands := take (index v) (commands v) @ [UpdateCommand row col Null x],
       index := index v + 1,
       status_bar := cell_status row col\<rparr>"
  have e: "setData v row col x = ?v1"
    by (rule setData_edit [OF assms(1-5)])
  have cmd: "(take (index v) (commands v) @ [UpdateCommand row col Null x]) ! index v =
      UpdateCommand row col Null x"
    using assms(6) by (simp add: nth_append)
  have v1: "valid_index ?m1 row col" "model_data ?m1 row col DisplayRole = x"
    "slot_connected ?m1"
    using assms(2) assms(3)
    by (simp_all add: valid_index_store_cell model_data_store_cell) (simp add: store_cell_def)
  let ?m2 = "store_cell ?m1 row col Null"
  have quiet: "on_data_changed (?v1\<lparr>model := Some ?m2\<rparr>) row col = ?v1\<lparr>model := Some ?m2\<rparr>"
    using v1(1)
    by (simp add: on_data_changed.simps model_data_store_cell old_value_is_null Let_def)
  have "setData ?v1 row col Null = ?v1\<lparr>model := Some ?m2\<rparr>"
    using v1 assms(5) quiet by (simp add: setData.simps)
  then have "undo ?v1 = ?v1\<lparr>model := Some ?m2, index := index v\<rparr>"
    by (simp add: undo_def cmd Let_def)
  then show ?thesis
    unfolding e using v1(1) by (simp add: cell_def model_data_store_cell)
qed

text \<open>What a command's forward action leaves of the undo stack: nothing changes, or
  the slot has pushed its update command at the cursor.\<close>

lemma setData_stack:
  "commands (setData v row col x) =
     (if slot_commands v (UpdateCommand row col y x) = [] then commands v
      else take (index v) (commands v) @ slot_commands v (UpdateCommand row col y x))"
  "index (setData v row col x) =
     (if slot_commands v (UpdateCommand row col y x) = [] then index v else index v + 1)"
proof -
  have "commands (setData v row col x) =
     (if slot_commands v (UpdateCommand row col y x) = [] then commands v
      else take (index v) (commands v) @ slot_commands v (UpdateCommand row col y x))
    \<and> index (setData v row col x) =
     (if slot_commands v (UpdateCommand row col y x) = [] then index v else index v + 1)"
  proof (cases "model v")
    case None
    then show ?thesis by (simp add: setData.simps slot_commands_def)
  next
    case (Some m)
    show ?thesis
    proof (cases "valid_index m row col \<and> model_data m row col DisplayRole \<noteq> x")
      case False
      with Some show ?thesis by (auto simp: setData.simps slot_commands_def)
    next
      case change: True
      show ?thesis
      proof (cases "slot_connected m")
        case False
        with Some change show ?thesis by (simp add: setData.simps slot_commands_def)
      next
        case conn: True
        show ?thesis
        proof (cases "x = Null")
          case True
          have "on_data_changed (v\<lparr>model := Some (store_cell m row col Null)\<rparr>) row col =
              v\<lparr>model := Some (store_cell m row col Null)\<rparr>"
            using change
            by (simp add: on_data_changed.simps model_data_store_cell old_value_is_null Let_def)
          with Some change conn True show ?thesis
            by (simp add: setData.simps slot_commands_def)
        next
          case False
          from setData_edit [OF Some conn _ _ False, of row col] change Some conn False
          show ?thesis by (simp add: slot_commands_def)
        qed
      qed
    qed
  qed
  then show "commands (setData v row col x) =
     (if slot_commands v (UpdateCommand row col y x) = [] then commands v
      else take (index v) (commands v) @ slot_commands v (UpdateCommand row col y x))"
    and "index (setData v row col x) =
     (if slot_commands v (UpdateCommand row col y x) = [] then index v else index v + 1)"
    by simp_all
qed

lemma command_redo_stack:
  "commands (command_redo cmd v) =
     (if slot_commands v cmd = [] then commands v
      else take (index v) (commands v) @ slot_commands v cmd)"
  "index (command_redo cmd v) = (if slot_commands v cmd = [] then index v else index v + 1)"
proof -
  have "commands (command_redo cmd v) =
     (if slot_commands v cmd = [] then commands v
      else take (index v) (commands v) @ slot_commands v cmd)
    \<and> index (command_redo cmd v) = (if slot_commands v cmd = [] then index v else index v + 1)"
  proof (cases cmd)
    case (UpdateCommand row col y x)
    with setData_stack [of v row col x y] show ?thesis by simp
  next
    case (AddColumnCommand t c)
    then show ?thesis by (simp add: slot_commands_def on_db_def split: option.splits)
  next
    case (DeleteColumnCommand t c)
    then show ?thesis by (simp add: slot_commands_def on_db_def split: option.splits)
  qed
  then show "commands (command_redo cmd v) =
     (if slot_commands v cmd = [] then commands v
      else take (index v) (commands v) @ slot_commands v cmd)"
    and "index (command_redo cmd v) = (if slot_commands v cmd = [] then index v else index v + 1)"
    by simp_all
qed

lemma length_slot_commands: "length (slot_commands v cmd) \<le> 1"
  by (simp add: slot_commands_def split: command.splits option.splits)

lemma push_stack:
  "commands (push v cmd) = take (index v) (commands v) @ slot_commands v cmd @ [cmd]"
proof (cases "slot_commands v cmd = []")
  case True
  then show ?thesis by (simp add: push.simps Let_def command_redo_stack)
next
  case False
  with length_slot_commands [of v cmd] obtain u where u: "slot_commands v cmd = [u]"
    by (cases "slot_commands v cmd") auto
  have "take (Suc (index v)) (take (index v) (commands v) @ [u]) = take (index v) (commands v) @ [u]"
    by simp
  with u show ?thesis by (simp add: push.simps Let_def command_redo_stack)
qed

lemma push_cursor:
  "index v \<le> length (commands v) \<Longrightarrow> index (push v cmd) = length (commands (push v cmd))"
proof (cases "slot_commands v cmd = []")
  case True
  moreover assume "index v \<le> length (commands v)"
  ultimately show ?thesis by (simp add: push_stack) (simp add: push.simps Let_def command_redo_stack)
next
  case False
  with length_slot_commands [of v cmd] obtain u where u: "slot_commands v cmd = [u]"
    by (cases "slot_commands v cmd") auto
  moreover assume "index v \<le> length (commands v)"
  ultimately show ?thesis by (simp add: push_stack) (simp add: push.simps Let_def command_redo_stack)
qed

text \<open>
  C8, on the undo stack as section 4.4 of the spec describes it and the code uses it.
  After a push the list of commands is: the commands that stood left of the cursor, then
  the update command that the \<open>dataChanged\<close> slot pushed while the command's forward
  action ran, if it pushed one, then the pushed command. So nothing that stood right of
  the cursor is left. With the cursor within the list before, it is at the end after,
  and a redo changes nothing. An undo with the cursor at the start changes nothing, and
  a redo with the cursor at the end changes nothing.
\<close>

theorem linear_undo_stack:
  "commands (push v cmd) = take (index v) (commands v) @ slot_commands v cmd @ [cmd]
   \<and> (index v \<le> length (commands v) \<longrightarrow>
        index (push v cmd) = length (commands (push v cmd))
        \<and> redo (push v cmd) = push v cmd)
   \<and> (index u = 0 \<longrightarrow> undo u = u)
   \<and> (index w = length (commands w) \<longrightarrow> redo w = w)"
proof (intro conjI impI)
  show "commands (push v cmd) = take (index v) (commands v) @ slot_commands v cmd @ [cmd]"
    by (rule push_stack)
next
  assume "index v \<le> length (commands v)"
  then show at_end: "index (push v cmd) = length (commands (push v cmd))"
    by (rule push_cursor)
  then show "redo (push v cmd) = push v cmd"
    by (simp add: redo_def)
next
  assume "index u = 0"
  then show "undo u = u" by (simp add: undo_def)
next
  assume "index w = length (commands w)"
  then show "redo w = w" by (simp add: redo_def)
qed

text \<open>A push after an undo: the undone command is discarded.\<close>

theorem linear_undo_stack_witness:
  "commands (push ((showing [(''people'', people)] ''people'')
       \<lparr>commands := [AddColumnCommand ''people'' ''age'']\<rparr>)
       (DeleteColumnCommand ''people'' ''age'')) = [DeleteColumnCommand ''people'' ''age'']
   \<and> redo (push ((showing [(''people'', people)] ''people'')
       \<lparr>commands := [AddColumnCommand ''people'' ''age'']\<rparr>)
       (DeleteColumnCommand ''people'' ''age'')) =
     push ((showing [(''people'', people)] ''people'')
       \<lparr>commands := [AddColumnCommand ''people'' ''age'']\<rparr>)
       (DeleteColumnCommand ''people'' ''age'')
   \<and> undo (showing [(''people'', people)] ''people'') = showing [(''people'', people)] ''people''
   \<and> redo (showing [(''people'', people)] ''people'') = showing [(''people'', people)] ''people''"
  using linear_undo_stack
    [of "(showing [(''people'', people)] ''people'')\<lparr>commands := [AddColumnCommand ''people'' ''age'']\<rparr>"
      "DeleteColumnCommand ''people'' ''age''"
      "showing [(''people'', people)] ''people''" "showing [(''people'', people)] ''people''"]
  by (simp add: showing_fields slot_commands_def)

text \<open>
  C2 fails on the code. The cell in row 1, column 1 holds \<open>Bob\<close>. The edit to
  \<open>Rob\<close> pushes an update command whose old value is NULL, and the undo writes NULL
  into the cell, not \<open>Bob\<close>.
\<close>

theorem undo_of_cell_edit_writes_null:
  "cell (showing [(''people'', people)] ''people'') 1 1 = TextV ''Bob''
   \<and> cell (setData (showing [(''people'', people)] ''people'') 1 1 (TextV ''Rob'')) 1 1 = TextV ''Rob''
   \<and> commands (setData (showing [(''people'', people)] ''people'') 1 1 (TextV ''Rob'')) =
       [UpdateCommand 1 1 Null (TextV ''Rob'')]
   \<and> cell (undo (setData (showing [(''people'', people)] ''people'') 1 1 (TextV ''Rob''))) 1 1 = Null"
proof -
  let ?v = "showing [(''people'', people)] ''people''"
  let ?m1 = "\<lparr>headers = [''id'', ''name''], cells = [[IntV 1, TextV ''Ann''], [IntV 2, TextV ''Rob'']],
              slot_connected = True\<rparr>"
  let ?m2 = "\<lparr>headers = [''id'', ''name''], cells = [[IntV 1, TextV ''Ann''], [IntV 2, Null]],
              slot_connected = True\<rparr>"
  have e: "setData ?v 1 1 (TextV ''Rob'') =
      ?v\<lparr>model := Some ?m1, commands := [UpdateCommand 1 1 Null (TextV ''Rob'')], index := 1,
         status_bar := cell_status 1 1\<rparr>"
    by (simp add: setData.simps on_data_changed.simps push.simps showing_people_model
        showing_fields valid_index_def model_data_def store_cell_def Let_def)
  have u: "undo (?v\<lparr>model := Some ?m1, commands := [UpdateCommand 1 1 Null (TextV ''Rob'')], index := 1,
         status_bar := cell_status 1 1\<rparr>) =
      ?v\<lparr>model := Some ?m2, commands := [UpdateCommand 1 1 Null (TextV ''Rob'')], index := 0,
         status_bar := cell_status 1 1\<rparr>"
    by (simp add: undo_def setData.simps on_data_changed.simps
        valid_index_def model_data_def store_cell_def Let_def)
  show ?thesis
    unfolding e u by (simp add: cell_def showing_people_model model_data_def valid_index_def)
qed

section \<open>Export\<close>

lemma set_join: "set (join sep xs) \<subseteq> set sep \<union> \<Union> (set ` set xs)"
  by (induction sep xs rule: join.induct) auto

lemma set_csv_field: "set (csv_field f) \<subseteq> insert (CHR 0x22) (set f)"
  by (auto simp: csv_field_def split: if_splits)

lemma csv_record_no_line_feed:
  assumes "\<And>f. f \<in> set fs \<Longrightarrow> CHR 0x0A \<notin> set f"
  shows "CHR 0x0A \<notin> set (csv_record fs)"
proof
  assume a: "CHR 0x0A \<in> set (csv_record fs)"
  show False
  proof (cases "fs = [[]]")
    case True
    with a show False by (simp add: csv_record_def)
  next
    case False
    with a have "CHR 0x0A \<in> set (join '','' (map csv_field fs))"
      by (simp add: csv_record_def)
    with set_join [of "'',''" "map csv_field fs"]
    obtain f where f: "f \<in> set fs" and "CHR 0x0A \<in> set (csv_field f)" by auto
    with set_csv_field [of f] have "CHR 0x0A \<in> set f" by auto
    with assms [OF f] show False by simp
  qed
qed

lemma lines_from_line:
  "CHR 0x0A \<notin> set l \<Longrightarrow> lines_from cur (l @ CHR 0x0A # rest) = (rev cur @ l) # lines_from [] rest"
  by (induction l arbitrary: cur) auto

lemma text_lines_writerow:
  assumes "\<And>f. f \<in> set fs \<Longrightarrow> CHR 0x0A \<notin> set f"
  shows "text_lines (writerow fs @ rest) = (csv_record fs @ [CHR 0x0D]) # text_lines rest"
proof -
  have "CHR 0x0A \<notin> set (csv_record fs @ [CHR 0x0D])"
    using csv_record_no_line_feed [OF assms] by simp
  from lines_from_line [OF this, of "[]" rest] show ?thesis
    by (simp add: text_lines_def writerow_def)
qed

lemma text_lines_records:
  "\<forall>fs \<in> set rs. \<forall>f \<in> set fs. CHR 0x0A \<notin> set f \<Longrightarrow>
   text_lines (concat (map writerow rs)) = map (\<lambda>fs. csv_record fs @ [CHR 0x0D]) rs"
proof (induction rs)
  case Nil
  then show ?case by (simp add: text_lines_def)
next
  case (Cons r rs)
  have "text_lines (writerow r @ concat (map writerow rs)) =
        (csv_record r @ [CHR 0x0D]) # text_lines (concat (map writerow rs))"
    using Cons.prems by (intro text_lines_writerow) auto
  moreover have "text_lines (concat (map writerow rs)) = map (\<lambda>fs. csv_record fs @ [CHR 0x0D]) rs"
    using Cons.prems by (intro Cons.IH) auto
  ultimately show ?case by simp
qed

text \<open>When every loaded row has a cell for every header, the rows handed to the writer
  are the headers and then every row with its values stringified.\<close>

lemma export_rows_cells:
  assumes "list_all (\<lambda>r. length r = length (headers m)) (cells m)"
  shows "export_rows m = headers m # map (map str_val) (cells m)"
proof -
  have len: "length (cells m ! row) = length (headers m)" if "row < length (cells m)" for row
    using assms that by (simp add: list_all_length)
  have "map (\<lambda>col. str_val (model_data m row col DisplayRole)) [0..<length (headers m)]
        = map str_val (cells m ! row)" if "row < length (cells m)" for row
    using that len [OF that]
    by (intro nth_equalityI) (simp_all add: model_data_def valid_index_def)
  then have "map (\<lambda>row. map (\<lambda>col. str_val (model_data m row col DisplayRole))
                  [0..<length (headers m)]) [0..<length (cells m)]
        = map (map str_val) (cells m)"
    by (intro nth_equalityI) simp_all
  then show ?thesis by (simp add: export_rows_def)
qed

text \<open>A stored NULL, loaded by \<open>display_table\<close>, is exported as an empty field.\<close>

lemma loaded_null_is_exported_empty: "str_val (loaded_value Null) = []"
  by (simp add: loaded_value_def)

text \<open>
  C9, as the code has it. Let the grid's model have M headers and N loaded rows, every
  row with M cells. \<open>export_to_csv\<close> writes N+1 records: the M headers in display
  order, then one record per loaded row, each cell stringified, in the writer's default
  quoting. When no header and no stringified cell has a line feed in it, the text has
  exactly N+1 lines: the header record, then the record of each row in order, each
  ending in a carriage return before its line feed.
\<close>

theorem export_writes_one_line_per_row:
  assumes "model v = Some m" and "file_name \<noteq> []"
    and "list_all (\<lambda>r. length r = length (headers m)) (cells m)"
  shows "snd (export_to_csv v file_name True) =
           Some (concat (map writerow (headers m # map (map str_val) (cells m))))
         \<and> ((\<forall>h \<in> set (headers m). CHR 0x0A \<notin> set h)
              \<and> (\<forall>r \<in> set (cells m). \<forall>x \<in> set r. CHR 0x0A \<notin> set (str_val x))
            \<longrightarrow> map_option text_lines (snd (export_to_csv v file_name True)) =
                  Some ((csv_record (headers m) @ [CHR 0x0D]) #
                        map (\<lambda>r. csv_record (map str_val r) @ [CHR 0x0D]) (cells m))
                \<and> map_option (\<lambda>s. length (text_lines s))
                    (snd (export_to_csv v file_name True)) = Some (length (cells m) + 1))"
proof -
  have rows: "export_rows m = headers m # map (map str_val) (cells m)"
    by (rule export_rows_cells [OF assms(3)])
  have written: "snd (export_to_csv v file_name True) =
      Some (concat (map writerow (headers m # map (map str_val) (cells m))))"
    using assms(1) assms(2) by (simp add: export_to_csv_def rows)
  have "text_lines (concat (map writerow (headers m # map (map str_val) (cells m)))) =
      map (\<lambda>fs. csv_record fs @ [CHR 0x0D]) (headers m # map (map str_val) (cells m))"
    if "\<forall>h \<in> set (headers m). CHR 0x0A \<notin> set h"
      and "\<forall>r \<in> set (cells m). \<forall>x \<in> set r. CHR 0x0A \<notin> set (str_val x)"
    using that by (intro text_lines_records) auto
  with written show ?thesis
    by (simp add: comp_def)
qed

theorem export_writes_one_line_per_row_witness:
  "map_option text_lines
     (snd (export_to_csv (showing [(''people'', people)] ''people'') ''out.csv'' True)) =
   Some [''id,name'' @ [CHR 0x0D], ''1,Ann'' @ [CHR 0x0D], ''2,Bob'' @ [CHR 0x0D]]"
proof -
  let ?m = "\<lparr>headers = [''id'', ''name''], cells = [[IntV 1, TextV ''Ann''], [IntV 2, TextV ''Bob'']],
             slot_connected = True\<rparr>"
  have s: "str_int 1 = ''1''" "str_int 2 = ''2''"
    by (simp_all add: str_int_def str_nat.simps digit_char_def)
  have c: "csv_record [''id'', ''name''] = ''id,name''" "csv_record [''1'', ''Ann''] = ''1,Ann''"
    "csv_record [''2'', ''Bob''] = ''2,Bob''"
    by (simp_all add: csv_record_def csv_field_def csv_special_def)
  from export_writes_one_line_per_row [of "showing [(''people'', people)] ''people''" ?m "''out.csv''"]
  show ?thesis
    by (auto simp: showing_people_model s c)
qed

text \<open>C9 as stated fails: one row whose cell holds a text of two lines gives a file of
  three lines, not two.\<close>

theorem export_of_two_line_cell:
  "map_option text_lines
     (snd (export_to_csv ((connected_viewer [] [])\<lparr>model := Some two_line_cell\<rparr>) ''out.csv'' True)) =
   Some [''note'' @ [CHR 0x0D], [CHR 0x22, CHR ''a''], [CHR ''b'', CHR 0x22, CHR 0x0D]]"
  by (simp add: export_to_csv_def connected_viewer_def two_line_cell_def export_rows_def
      model_data_def valid_index_def writerow_def csv_record_def csv_field_def csv_special_def
      text_lines_def)

end
